theory Spec2Isabelle
  imports Main
begin

section \<open>The auction backend (backend/main.py) as state-passing functions\<close>

text \<open>
  The module keeps its state in two globals, \<^verbatim>\<open>teams\<close> and \<^verbatim>\<open>current_bid\<close>, and in
  two MongoDB collections, \<^verbatim>\<open>players\<close> and \<^verbatim>\<open>results\<close>. Every endpoint is modelled as a
  function from the state before the call to the outcome of the call (the response, or
  the exception that ended it) and the state after it.
  Python integers are unbounded, so amounts and budgets are \<^typ>\<open>int\<close>.
\<close>

subsection \<open>Data\<close>

text \<open>The pydantic model \<^verbatim>\<open>Player\<close> and the documents of the players collection.\<close>

record Player =
  name :: string
  role :: string
  base_price :: int
  image_url :: string

text \<open>
  The dictionary \<^verbatim>\<open>current_bid\<close>. \<^verbatim>\<open>end_bidding\<close> inserts this very dictionary into the
  results collection, so a result document has the same four fields.
\<close>

record bid =
  player :: "string option"
  highest_bid :: int
  team :: "string option"
  is_active :: bool

text \<open>
  The messages handed to \<^verbatim>\<open>manager.broadcast\<close> or to \<^verbatim>\<open>websocket.send_json\<close>, one
  constructor per value of the \<^verbatim>\<open>"type"\<close> key, with the remaining keys as arguments.
\<close>

datatype message =
    Players_update "Player list"
  | Budgets_update "string \<rightharpoonup> int"
  | Results_update "bid list"
  | Start_bidding_msg "string option" int
  | New_bid_msg "string option" int string
  | End_bidding_msg "string option" "string option" int
  | Clear_data_msg

text \<open>
  The responses of the endpoints. The source returns \<^verbatim>\<open>{"message": ...}\<close> or
  \<^verbatim>\<open>{"error": ...}\<close> with formatted text; each constructor stands for one of these
  texts and carries the values formatted into it:
  \<^item> \<open>Msg_started p\<close>: "Bidding started for p";
  \<^item> \<open>Err_no_active\<close>: error "No active bidding right now";
  \<^item> \<open>Err_invalid_team\<close>: error "Invalid team name";
  \<^item> \<open>Err_not_enough_budget t\<close>: error "t does not have enough budget!";
  \<^item> \<open>Err_bid_too_low\<close>: error "Bid must be higher than current bid";
  \<^item> \<open>Msg_bid_placed t a\<close>: "t placed a bid of a";
  \<^item> \<open>Msg_nothing_to_end\<close>: "No active bidding to end.";
  \<^item> \<open>Msg_sold p t a b\<close>: "p sold to t for a. Remaining budget: b";
  \<^item> \<open>Msg_no_bids\<close>: "No bids placed.";
  \<^item> \<open>Msg_cleared\<close>: "All data cleared and sample players reloaded.";
  \<^item> \<open>Raised_KeyError t\<close>: the lookup \<^verbatim>\<open>teams[t]\<close> raised, no response was built;
  \<^item> \<open>Raised_RuntimeError\<close>: \<^verbatim>\<open>asyncio.create_task\<close> raised, no response was built.
\<close>

datatype response =
    Msg_started string
  | Err_no_active
  | Err_invalid_team
  | Err_not_enough_budget string
  | Err_bid_too_low
  | Msg_bid_placed string int
  | Msg_nothing_to_end
  | Msg_sold "string option" string int int
  | Msg_no_bids
  | Msg_cleared
  | Raised_KeyError string
  | Raised_RuntimeError

text \<open>
  The whole state. \<open>teams\<close> maps a team name to its budget (the source nests the budget
  in a one-key dictionary). \<open>outbox\<close> collects, oldest first, the messages for which a
  broadcast task was created, each with the payload as it is when the task is created;
  the delivery to the connected sockets is not modelled.
\<close>

record state =
  teams :: "string \<rightharpoonup> int"
  current_bid :: bid
  players :: "Player list"
  results :: "bid list"
  outbox :: "message list"

subsection \<open>Start-up\<close>

definition sample_players :: "Player list" where
  "sample_players =
    [\<lparr>name = ''Virat Kohli'', role = ''Batsman'', base_price = 50000,
       image_url = ''https://i.ibb.co/ZdS5KpR/virat.jpg''\<rparr>,
     \<lparr>name = ''Rohit Sharma'', role = ''Batsman'', base_price = 45000,
       image_url = ''https://i.ibb.co/xFM3W2T/rohit.jpg''\<rparr>,
     \<lparr>name = ''Jasprit Bumrah'', role = ''Bowler'', base_price = 40000,
       image_url = ''https://i.ibb.co/zHq2Nw7/bumrah.jpg''\<rparr>,
     \<lparr>name = ''Hardik Pandya'', role = ''All-Rounder'', base_price = 42000,
       image_url = ''https://i.ibb.co/WgLwKLD/hardik.jpg''\<rparr>,
     \<lparr>name = ''Ravindra Jadeja'', role = ''All-Rounder'', base_price = 38000,
       image_url = ''https://i.ibb.co/3WMLk9C/jadeja.jpg''\<rparr>]"

text \<open>\<^verbatim>\<open>load_sample_players\<close>: the samples are inserted only into an empty collection.\<close>

definition load_sample_players :: "Player list \<Rightarrow> Player list" where
  "load_sample_players ps = (if length ps = 0 then ps @ sample_players else ps)"

definition initial_teams :: "string \<rightharpoonup> int" where
  "initial_teams =
    [''Team A'' \<mapsto> 100000, ''Team B'' \<mapsto> 100000, ''Team C'' \<mapsto> 100000, ''Team D'' \<mapsto> 100000]"

definition idle_bid :: bid where
  "idle_bid = \<lparr>player = None, highest_bid = 0, team = None, is_active = False\<rparr>"

text \<open>
  The state when the module has been loaded. The two collections live in the database
  and survive a restart, so their contents at start-up are parameters.
\<close>

definition initial_state :: "Player list \<Rightarrow> bid list \<Rightarrow> state" where
  "initial_state db_players db_results =
    \<lparr>teams = initial_teams, current_bid = idle_bid,
     players = load_sample_players db_players, results = db_results, outbox = []\<rparr>"

subsection \<open>Scheduling a broadcast\<close>

text \<open>
  The endpoints announce what they did with
  \<^verbatim>\<open>asyncio.create_task(manager.broadcast(m))\<close>. \<^verbatim>\<open>create_task\<close> needs an event loop
  running in the calling thread and raises \<^verbatim>\<open>RuntimeError\<close> when there is none; the
  exception ends the endpoint at that line, and what it has written so far stays written.
  The endpoints are plain functions (\<^verbatim>\<open>def\<close>, not \<^verbatim>\<open>async def\<close>), which the framework
  runs in a worker thread, where no loop is running. The flag \<open>running\<close> says whether the
  caller has a running loop: \<open>False\<close> is the application as it is served, \<open>True\<close> a
  call of the function from a coroutine. The result \<open>None\<close> is the raised exception.
\<close>

definition create_task :: "bool \<Rightarrow> message \<Rightarrow> state \<Rightarrow> state option" where
  "create_task running m s =
    (if running then Some (s\<lparr>outbox := outbox s @ [m]\<rparr>) else None)"

subsection \<open>Endpoints\<close>

text \<open>\<^verbatim>\<open>clear_data\<close>: both collections are emptied, every budget is set back.\<close>

definition clear_data :: "bool \<Rightarrow> state \<Rightarrow> response \<times> state" where
  "clear_data running s =
    (let s1 = s\<lparr>players := [], results := []\<rparr>;
         s2 = s1\<lparr>teams := (\<lambda>t. map_option (\<lambda>_. 100000) (teams s1 t))\<rparr>;
         s3 = s2\<lparr>players := load_sample_players (players s2)\<rparr>
     in case create_task running Clear_data_msg s3 of
          None \<Rightarrow> (Raised_RuntimeError, s3)
        | Some s4 \<Rightarrow>
     (case create_task running (Players_update (players s4)) s4 of
          None \<Rightarrow> (Raised_RuntimeError, s4)
        | Some s5 \<Rightarrow>
     (case create_task running (Budgets_update (teams s5)) s5 of
          None \<Rightarrow> (Raised_RuntimeError, s5)
        | Some s6 \<Rightarrow>
     (case create_task running (Results_update (results s6)) s6 of
          None \<Rightarrow> (Raised_RuntimeError, s6)
        | Some s7 \<Rightarrow> (Msg_cleared, s7)))))"

definition start_bidding :: "bool \<Rightarrow> string \<Rightarrow> state \<Rightarrow> response \<times> state" where
  "start_bidding running player_name s =
    (let s1 = s\<lparr>current_bid :=
                 \<lparr>player = Some player_name, highest_bid = 0, team = None, is_active = True\<rparr>\<rparr>
     in case create_task running (Start_bidding_msg (Some player_name) 0) s1 of
          None \<Rightarrow> (Raised_RuntimeError, s1)
        | Some s2 \<Rightarrow> (Msg_started player_name, s2))"

definition place_bid :: "bool \<Rightarrow> string \<Rightarrow> int \<Rightarrow> state \<Rightarrow> response \<times> state" where
  "place_bid running t amount s =
    (if \<not> is_active (current_bid s) then (Err_no_active, s)
     else case teams s t of
       None \<Rightarrow> (Err_invalid_team, s)
     | Some budget \<Rightarrow>
         if amount > budget then (Err_not_enough_budget t, s)
         else if amount \<le> highest_bid (current_bid s) then (Err_bid_too_low, s)
         else
           (let s1 = s\<lparr>current_bid := (current_bid s)\<lparr>highest_bid := amount\<rparr>\<rparr>;
                s2 = s1\<lparr>current_bid := (current_bid s1)\<lparr>team := Some t\<rparr>\<rparr>
            in case create_task running (New_bid_msg (player (current_bid s2)) amount t) s2 of
                 None \<Rightarrow> (Raised_RuntimeError, s2)
               | Some s3 \<Rightarrow> (Msg_bid_placed t amount, s3)))"

text \<open>
  Python's truth value of \<^verbatim>\<open>current_bid["team"]\<close>: \<^verbatim>\<open>None\<close> and the empty string are
  false, every other string is true.
\<close>

definition truthy :: "string option \<Rightarrow> bool" where
  "truthy x = (case x of None \<Rightarrow> False | Some t \<Rightarrow> t \<noteq> [])"

text \<open>
  \<^verbatim>\<open>end_bidding\<close>. The flag is cleared first; when the leading team is not a key of
  \<^verbatim>\<open>teams\<close> the subscript raises and the state stays as it is at that point. The
  document inserted into the results is \<^verbatim>\<open>current_bid\<close> as it is then, flag cleared.
  The assignment that resets \<^verbatim>\<open>current_bid\<close> is the last statement, after the tasks.
\<close>

definition end_bidding :: "bool \<Rightarrow> state \<Rightarrow> response \<times> state" where
  "end_bidding running s =
    (if \<not> is_active (current_bid s) then (Msg_nothing_to_end, s)
     else
       (let s1 = s\<lparr>current_bid := (current_bid s)\<lparr>is_active := False\<rparr>\<rparr> in
        case (if truthy (team (current_bid s1)) then team (current_bid s1) else None) of
          Some t \<Rightarrow>
            (let amount = highest_bid (current_bid s1) in
             case teams s1 t of
               None \<Rightarrow> (Raised_KeyError t, s1)
             | Some budget \<Rightarrow>
                 (let s2 = s1\<lparr>teams := (teams s1)(t \<mapsto> budget - amount)\<rparr>;
                      s3 = s2\<lparr>results := results s2 @ [current_bid s2]\<rparr>
                  in case create_task running
                            (End_bidding_msg (player (current_bid s3)) (Some t) amount) s3 of
                       None \<Rightarrow> (Raised_RuntimeError, s3)
                     | Some s4 \<Rightarrow>
                  (case create_task running (Budgets_update (teams s4)) s4 of
                       None \<Rightarrow> (Raised_RuntimeError, s4)
                     | Some s5 \<Rightarrow>
                  (case create_task running (Results_update (results s5)) s5 of
                       None \<Rightarrow> (Raised_RuntimeError, s5)
                     | Some s6 \<Rightarrow>
                  (case create_task running (Players_update (players s6)) s6 of
                       None \<Rightarrow> (Raised_RuntimeError, s6)
                     | Some s7 \<Rightarrow>
                         (Msg_sold (player (current_bid s7)) t amount (budget - amount),
                          s7\<lparr>current_bid := idle_bid\<rparr>))))))
        | None \<Rightarrow>
            (case create_task running (End_bidding_msg (player (current_bid s1)) None 0) s1 of
               None \<Rightarrow> (Raised_RuntimeError, s1)
             | Some s2 \<Rightarrow> (Msg_no_bids, s2\<lparr>current_bid := idle_bid\<rparr>))))"


subsection \<open>Serialized sequences of calls\<close>

datatype action =
    Start_bidding string
  | Place_bid string int
  | End_bidding
  | Clear_data

fun step :: "bool \<Rightarrow> action \<Rightarrow> state \<Rightarrow> state" where
  "step running (Start_bidding p) s = snd (start_bidding running p s)"
| "step running (Place_bid t a) s = snd (place_bid running t a s)"
| "step running End_bidding s = snd (end_bidding running s)"
| "step running Clear_data s = snd (clear_data running s)"

fun run :: "bool \<Rightarrow> action list \<Rightarrow> state \<Rightarrow> state" where
  "run running [] s = s"
| "run running (a # as) s = run running as (step running a s)"

text \<open>The states seen along a sequence of \<^verbatim>\<open>place_bid\<close> calls, the first one included.\<close>

fun place_bids :: "bool \<Rightarrow> (string \<times> int) list \<Rightarrow> state \<Rightarrow> state list" where
  "place_bids running [] s = [s]"
| "place_bids running ((t, a) # bs) s = s # place_bids running bs (snd (place_bid running t a s))"

text \<open>
  The responses with the key \<^verbatim>\<open>"error"\<close>: the bid was refused by one of the four checks
  of \<^verbatim>\<open>place_bid\<close>. Every other outcome of \<^verbatim>\<open>place_bid\<close> means that the bid was accepted.
\<close>

fun is_error :: "response \<Rightarrow> bool" where
  "is_error Err_no_active = True"
| "is_error Err_invalid_team = True"
| "is_error (Err_not_enough_budget t) = True"
| "is_error Err_bid_too_low = True"
| "is_error r = False"

subsection \<open>States used as concrete inputs\<close>

text \<open>
  The states below are reached in the served application (\<open>running = False\<close>), with both
  collections empty at start-up. A round for P1 in which Team A leads with 50000:
\<close>

definition mid_round :: state where
  "mid_round =
    run False [Start_bidding ''P1'', Place_bid ''Team A'' 50000] (initial_state [] [])"


text \<open>A round for P2 that has just been opened: no bid yet.\<close>

definition opened_round :: state where
  "opened_round = run False [Start_bidding ''P2''] (initial_state [] [])"

text \<open>
  A state that no sequence of calls produces: Team A leads with 50 and owns only 10.
\<close>

definition overdrawn_round :: state where
  "overdrawn_round =
    \<lparr>teams = initial_teams(''Team A'' \<mapsto> 10),
     current_bid = \<lparr>player = Some ''P1'', highest_bid = 50, team = Some ''Team A'',
                    is_active = True\<rparr>,
     players = sample_players, results = [], outbox = []\<rparr>"

subsection \<open>The invariant of the reachable states\<close>

text \<open>
  No team has the empty name, every budget lies between 0 and the initial budget, and the
  round either has no leading team and a highest bid of 0, or a leading team and a
  positive highest bid which, while the round is active, that team is registered and able
  to pay.
\<close>

definition state_ok :: "state \<Rightarrow> bool" where
  "state_ok s \<longleftrightarrow>
     teams s [] = None \<and>
     (\<forall>t b. teams s t = Some b \<longrightarrow> 0 \<le> b \<and> b \<le> 100000) \<and>
     (case team (current_bid s) of
        None \<Rightarrow> highest_bid (current_bid s) = 0
      | Some t \<Rightarrow> 0 < highest_bid (current_bid s) \<and>
          (is_active (current_bid s) \<longrightarrow>
             (\<exists>b. teams s t = Some b \<and> highest_bid (current_bid s) \<le> b)))"

section \<open>Properties\<close>

lemma create_task_simps:
  "create_task True m s = Some (s\<lparr>outbox := outbox s @ [m]\<rparr>)"
  "create_task False m s = None"
  by (simp_all add: create_task_def)

subsection \<open>The invariant holds in every reachable state\<close>

lemma state_ok_initial_state: "state_ok (initial_state ps rs)"
  by (simp add: state_ok_def initial_state_def initial_teams_def idle_bid_def)

lemma state_ok_start_bidding: "state_ok s \<Longrightarrow> state_ok (snd (start_bidding running p s))"
  by (cases running) (simp_all add: state_ok_def start_bidding_def create_task_simps Let_def)

lemma state_ok_place_bid: "state_ok s \<Longrightarrow> state_ok (snd (place_bid running t a s))"
  by (cases running)
    (auto simp: state_ok_def place_bid_def create_task_simps Let_def split: option.splits)

lemma state_ok_clear_data:
  assumes "state_ok s"
  shows "state_ok (snd (clear_data running s))"
proof -
  have b: "\<And>t b. teams s t = Some b \<Longrightarrow> 0 \<le> b \<and> b \<le> 100000"
    using assms by (simp add: state_ok_def)
  show ?thesis
  proof (cases "team (current_bid s)")
    case None
    with assms show ?thesis
      by (cases running) (auto simp: state_ok_def clear_data_def create_task_simps Let_def)
  next
    case (Some t)
    show ?thesis
    proof (cases "is_active (current_bid s)")
      case False
      with assms Some show ?thesis
        by (cases running) (auto simp: state_ok_def clear_data_def create_task_simps Let_def)
    next
      case True
      with assms Some obtain b0
        where t: "teams s t = Some b0" "highest_bid (current_bid s) \<le> b0"
        by (auto simp: state_ok_def)
      with b [of t b0] have "highest_bid (current_bid s) \<le> 100000" by simp
      with assms Some t(1) show ?thesis
        by (cases running) (auto simp: state_ok_def clear_data_def create_task_simps Let_def)
    qed
  qed
qed

lemma state_ok_end_bidding:
  assumes "state_ok s"
  shows "state_ok (snd (end_bidding running s))"
proof -
  have b: "\<And>t b. teams s t = Some b \<Longrightarrow> 0 \<le> b \<and> b \<le> 100000"
    using assms by (simp add: state_ok_def)
  have e: "teams s [] = None" using assms by (simp add: state_ok_def)
  show ?thesis
  proof (cases "is_active (current_bid s)")
    case False
    with assms show ?thesis by (simp add: end_bidding_def)
  next
    case True
    show ?thesis
    proof (cases "team (current_bid s)")
      case None
      with True assms b e show ?thesis
        by (cases running)
          (simp_all add: state_ok_def end_bidding_def create_task_simps Let_def truthy_def
            idle_bid_def)
    next
      case (Some t)
      with assms True obtain b0
        where t: "teams s t = Some b0" "highest_bid (current_bid s) \<le> b0"
          "0 < highest_bid (current_bid s)"
        by (auto simp: state_ok_def)
      from t e have ne: "t \<noteq> []" by auto
      from b [OF t(1)] t have "0 \<le> b0 - highest_bid (current_bid s)"
        "b0 - highest_bid (current_bid s) \<le> 100000" by simp_all
      with True Some t ne b e show ?thesis
        by (cases running)
          (simp_all add: state_ok_def end_bidding_def create_task_simps Let_def truthy_def
            idle_bid_def)
    qed
  qed
qed

lemma state_ok_step: "state_ok s \<Longrightarrow> state_ok (step running a s)"
  by (cases a)
    (simp_all add: state_ok_start_bidding state_ok_place_bid state_ok_end_bidding
      state_ok_clear_data)

lemma state_ok_run: "state_ok s \<Longrightarrow> state_ok (run running acts s)"
  by (induction acts arbitrary: s) (simp_all add: state_ok_step)

lemma state_ok_reachable: "state_ok (run running acts (initial_state ps rs))"
  by (rule state_ok_run [OF state_ok_initial_state])

subsection \<open>The concrete states, evaluated\<close>

lemma mid_round_eq:
  "mid_round =
    \<lparr>teams = initial_teams,
     current_bid = \<lparr>player = Some ''P1'', highest_bid = 50000, team = Some ''Team A'',
                    is_active = True\<rparr>,
     players = sample_players, results = [], outbox = []\<rparr>"
  by (simp add: mid_round_def initial_state_def idle_bid_def load_sample_players_def
      start_bidding_def place_bid_def create_task_simps initial_teams_def Let_def)


lemma opened_round_eq:
  "opened_round =
    \<lparr>teams = initial_teams,
     current_bid = \<lparr>player = Some ''P2'', highest_bid = 0, team = None, is_active = True\<rparr>,
     players = sample_players, results = [], outbox = []\<rparr>"
  by (simp add: opened_round_def initial_state_def idle_bid_def load_sample_players_def
      start_bidding_def create_task_simps Let_def)

subsection \<open>What a settlement writes\<close>

lemma end_bidding_sold:
  assumes "is_active (current_bid s)" and "team (current_bid s) = Some T" and "T \<noteq> []"
    and "teams s T = Some b"
  shows "teams (snd (end_bidding running s)) = (teams s)(T \<mapsto> b - highest_bid (current_bid s))"
    and "results (snd (end_bidding running s)) =
           results s @ [(current_bid s)\<lparr>is_active := False\<rparr>]"
    and "current_bid (snd (end_bidding running s)) =
           (if running then idle_bid else (current_bid s)\<lparr>is_active := False\<rparr>)"
  using assms
  by (cases running; simp add: end_bidding_def truthy_def create_task_simps Let_def)+

subsection \<open>Sequences of bids\<close>

lemma place_bid_highest_bid_mono:
  "highest_bid (current_bid s) \<le> highest_bid (current_bid (snd (place_bid running t a s)))"
  by (cases running)
    (simp_all add: place_bid_def create_task_simps Let_def split: option.splits)

lemma place_bid_accepted:
  assumes "\<not> is_error (fst (place_bid running t a s))"
  shows "highest_bid (current_bid s) < a \<and>
         highest_bid (current_bid (snd (place_bid running t a s))) = a"
  using assms
  by (cases running)
    (simp_all add: place_bid_def create_task_simps Let_def split: option.splits if_splits)

lemma place_bids_lower_bound:
  "s' \<in> set (place_bids running bs s) \<Longrightarrow>
     highest_bid (current_bid s) \<le> highest_bid (current_bid s')"
proof (induction bs arbitrary: s)
  case Nil
  then show ?case by simp
next
  case (Cons x bs)
  obtain t a where x: "x = (t, a)" by (cases x)
  from Cons.prems x
  consider "s' = s" | "s' \<in> set (place_bids running bs (snd (place_bid running t a s)))"
    by auto
  then show ?case
  proof cases
    case 1
    then show ?thesis by simp
  next
    case 2
    from Cons.IH [OF 2] place_bid_highest_bid_mono [of s running t a] show ?thesis by simp
  qed
qed

lemma place_bids_sorted:
  "sorted (map (\<lambda>s. highest_bid (current_bid s)) (place_bids running bs s))"
proof (induction bs arbitrary: s)
  case Nil
  show ?case by simp
next
  case (Cons x bs)
  obtain t a where x: "x = (t, a)" by (cases x)
  have "\<forall>s' \<in> set (place_bids running bs (snd (place_bid running t a s))).
          highest_bid (current_bid s) \<le> highest_bid (current_bid s')"
    using place_bids_lower_bound place_bid_highest_bid_mono [of s running t a] by fastforce
  with Cons.IH [of "snd (place_bid running t a s)"] x show ?case by simp
qed

lemma place_bids_nth_step:
  "i < length bs \<Longrightarrow>
     place_bids running bs s ! Suc i =
       snd (place_bid running (fst (bs ! i)) (snd (bs ! i)) (place_bids running bs s ! i))"
proof (induction bs arbitrary: s i)
  case Nil
  then show ?case by simp
next
  case (Cons x bs)
  obtain t a where x: "x = (t, a)" by (cases x)
  show ?case
  proof (cases i)
    case 0
    with x show ?thesis by (cases bs) auto
  next
    case (Suc j)
    with Cons.prems have "j < length bs" by simp
    from Cons.IH [OF this, of "snd (place_bid running t a s)"] x Suc show ?thesis by simp
  qed
qed

lemma run_sale:
  "teams (run False [Start_bidding ''P1'', Place_bid ''Team A'' 50000, End_bidding]
            (initial_state [] [])) ''Team A'' = Some 50000"
  by (simp add: initial_state_def idle_bid_def load_sample_players_def truthy_def
      start_bidding_def place_bid_def end_bidding_def create_task_simps initial_teams_def Let_def)

section \<open>The claims\<close>

text \<open>
  Claim C1. A round that is ended while it is active and has a leading team \<open>T\<close> and a
  highest bid \<open>A\<close> is to lower the budget of \<open>T\<close> by \<open>A\<close>, append one result document
  with the player, \<open>T\<close> and \<open>A\<close>, and leave the round inactive with no player. The served
  application does not do the last: P1 is opened, Team A bids 50000, the round is ended.
  The budget is debited and the document is inserted, then the first \<^verbatim>\<open>create_task\<close>
  raises, and the assignment that resets \<^verbatim>\<open>current_bid\<close>, the last statement of the
  function, is not reached: the round still names P1, 50000 and Team A.
\<close>

theorem C1_end_bidding_round_not_reset:
  "is_active (current_bid mid_round) \<and>
   team (current_bid mid_round) = Some ''Team A'' \<and>
   highest_bid (current_bid mid_round) = 50000 \<and>
   teams mid_round ''Team A'' = Some 100000 \<and>
   fst (end_bidding False mid_round) = Raised_RuntimeError \<and>
   teams (snd (end_bidding False mid_round)) ''Team A'' = Some 50000 \<and>
   results (snd (end_bidding False mid_round)) =
     [\<lparr>player = Some ''P1'', highest_bid = 50000, team = Some ''Team A'', is_active = False\<rparr>] \<and>
   current_bid (snd (end_bidding False mid_round)) =
     \<lparr>player = Some ''P1'', highest_bid = 50000, team = Some ''Team A'', is_active = False\<rparr>"
  by (simp add: mid_round_eq end_bidding_def truthy_def create_task_simps initial_teams_def
      Let_def)

text \<open>
  Claim C2. Along every sequence of \<^verbatim>\<open>place_bid\<close> calls, from any state and with or without
  a running loop, the stored highest bid never decreases, and every call that is accepted
  (not refused with an error) has an amount strictly above the highest bid stored before
  it, which it then stores.
\<close>

theorem C2_highest_bid_monotone:
  "sorted (map (\<lambda>s. highest_bid (current_bid s)) (place_bids running bs s)) \<and>
   (\<forall>i < length bs.
      \<not> is_error (fst (place_bid running (fst (bs ! i)) (snd (bs ! i))
                         (place_bids running bs s ! i))) \<longrightarrow>
      highest_bid (current_bid (place_bids running bs s ! i)) < snd (bs ! i) \<and>
      highest_bid (current_bid (place_bids running bs s ! Suc i)) = snd (bs ! i))"
proof (intro conjI allI impI)
  show "sorted (map (\<lambda>s. highest_bid (current_bid s)) (place_bids running bs s))"
    by (rule place_bids_sorted)
next
  fix i
  assume i: "i < length bs"
    and acc: "\<not> is_error (fst (place_bid running (fst (bs ! i)) (snd (bs ! i))
                                 (place_bids running bs s ! i)))"
  from place_bid_accepted [OF acc] place_bids_nth_step [OF i, of running s]
  show "highest_bid (current_bid (place_bids running bs s ! i)) < snd (bs ! i)"
    and "highest_bid (current_bid (place_bids running bs s ! Suc i)) = snd (bs ! i)"
    by simp_all
qed

text \<open>
  Team A bids 50000 and then 40000 on a round just opened: the first bid is accepted.
\<close>

theorem C2_highest_bid_monotone_witness:
  "(0::nat) < length [(''Team A'', 50000::int), (''Team A'', 40000)] \<and>
   \<not> is_error (fst (place_bid False ''Team A'' 50000 opened_round)) \<and>
   highest_bid (current_bid opened_round) < 50000 \<and>
   highest_bid (current_bid
     (place_bids False [(''Team A'', 50000), (''Team A'', 40000)] opened_round ! Suc 0))
     = 50000 \<and>
   sorted (map (\<lambda>s. highest_bid (current_bid s))
     (place_bids False [(''Team A'', 50000), (''Team A'', 40000)] opened_round))"
proof -
  let ?bs = "[(''Team A'', 50000::int), (''Team A'', 40000)]"
  have h: "\<not> is_error (fst (place_bid False ''Team A'' 50000 opened_round))"
    by (simp add: opened_round_eq place_bid_def initial_teams_def create_task_simps Let_def)
  have n: "place_bids False ?bs opened_round ! 0 = opened_round" by simp
  have l: "(0::nat) < length ?bs" by simp
  have acc: "\<not> is_error (fst (place_bid False (fst (?bs ! 0)) (snd (?bs ! 0))
                                 (place_bids False ?bs opened_round ! 0)))"
    unfolding n nth_Cons_0 fst_conv snd_conv by (rule h)
  note c = C2_highest_bid_monotone [of False ?bs opened_round]
  from c
  have s: "sorted (map (\<lambda>s. highest_bid (current_bid s)) (place_bids False ?bs opened_round))"
    by (rule conjunct1)
  from c [THEN conjunct2, rule_format, OF l acc]
  have "highest_bid (current_bid opened_round) < 50000 \<and>
        highest_bid (current_bid (place_bids False ?bs opened_round ! Suc 0)) = 50000"
    by (simp only: n nth_Cons_0 fst_conv snd_conv)
  with h s l show ?thesis by (simp only: simp_thms)
qed

text \<open>
  Claim C3. In every state reached from the initial state by a sequence of
  \<^verbatim>\<open>start_bidding\<close>, \<^verbatim>\<open>place_bid\<close>, \<^verbatim>\<open>end_bidding\<close> and \<^verbatim>\<open>clear_data\<close> calls, every team's
  budget is non-negative.
\<close>

theorem C3_budget_never_negative:
  "teams (run running acts (initial_state ps rs)) t = Some b \<Longrightarrow> 0 \<le> b"
  using state_ok_reachable [of running acts ps rs] by (simp add: state_ok_def)

theorem C3_budget_never_negative_witness:
  "teams (run False [Start_bidding ''P1'', Place_bid ''Team A'' 50000, End_bidding]
            (initial_state [] [])) ''Team A'' = Some 50000 \<and> (0::int) \<le> 50000"
  using C3_budget_never_negative [OF run_sale] run_sale by simp

text \<open>
  Claim C4. When the round is active, the team is registered and the amount exceeds the
  team's budget, \<^verbatim>\<open>place_bid\<close> answers with the not-enough-budget error and the state (the
  round, every budget, the results, the scheduled messages) is unchanged.
\<close>

theorem C4_insufficient_budget:
  assumes "is_active (current_bid s)" and "teams s t = Some b" and "b < amount"
  shows "place_bid running t amount s = (Err_not_enough_budget t, s)"
  using assms by (simp add: place_bid_def)

theorem C4_insufficient_budget_witness:
  "is_active (current_bid opened_round) \<and> teams opened_round ''Team B'' = Some 100000 \<and>
   (100000::int) < 100001 \<and>
   place_bid False ''Team B'' 100001 opened_round =
     (Err_not_enough_budget ''Team B'', opened_round)"
proof -
  have h1: "is_active (current_bid opened_round)" by (simp add: opened_round_eq)
  have h2: "teams opened_round ''Team B'' = Some 100000"
    by (simp add: opened_round_eq initial_teams_def)
  have h3: "(100000::int) < 100001" by simp
  from C4_insufficient_budget [OF h1 h2 h3, of False] h1 h2 h3 show ?thesis by simp
qed

text \<open>
  Claim C5, as stated, fails: a round ended with no bid leaves the results as they were.
  P2 is opened and ended at once; the results are empty before and after, with or without
  a running loop.
\<close>

theorem C5_counterexample:
  "is_active (current_bid opened_round) \<and> team (current_bid opened_round) = None \<and>
   results opened_round = [] \<and>
   results (snd (end_bidding False opened_round)) = [] \<and>
   results (snd (end_bidding True opened_round)) = []"
  by (simp add: opened_round_eq end_bidding_def truthy_def create_task_simps Let_def)

text \<open>
  Claim C5, amended. When an active round with no leading team is ended, \<^verbatim>\<open>end_bidding\<close>
  appends no result document and leaves every team's budget unchanged.
\<close>

theorem C5_end_bidding_unsold:
  assumes "is_active (current_bid s)" and "team (current_bid s) = None"
  shows "results (snd (end_bidding running s)) = results s \<and>
         teams (snd (end_bidding running s)) = teams s"
  using assms
  by (cases running) (simp_all add: end_bidding_def truthy_def create_task_simps Let_def)

theorem C5_end_bidding_unsold_witness:
  "is_active (current_bid opened_round) \<and> team (current_bid opened_round) = None \<and>
   results (snd (end_bidding False opened_round)) = results opened_round \<and>
   teams (snd (end_bidding False opened_round)) = teams opened_round"
proof -
  have h1: "is_active (current_bid opened_round)" by (simp add: opened_round_eq)
  have h2: "team (current_bid opened_round) = None" by (simp add: opened_round_eq)
  from C5_end_bidding_unsold [OF h1 h2, of False] h1 h2 show ?thesis by simp
qed

text \<open>
  Claim C6, as stated, fails: \<^verbatim>\<open>end_bidding\<close> has no check of the budget. With Team A at
  10 and leading with 50, the budget becomes -40, with or without a running loop.
\<close>

theorem C6_counterexample:
  "is_active (current_bid overdrawn_round) \<and>
   team (current_bid overdrawn_round) = Some ''Team A'' \<and>
   highest_bid (current_bid overdrawn_round) = 50 \<and>
   teams overdrawn_round ''Team A'' = Some 10 \<and>
   teams (snd (end_bidding False overdrawn_round)) ''Team A'' = Some (- 40) \<and>
   teams (snd (end_bidding True overdrawn_round)) ''Team A'' = Some (- 40)"
  by (simp add: overdrawn_round_def end_bidding_def truthy_def create_task_simps Let_def
      initial_teams_def)

text \<open>
  Claim C6, amended. When an active round whose leading team is set (a non-empty name,
  registered) is ended with a highest bid above that team's budget, \<^verbatim>\<open>end_bidding\<close> makes
  no check of the budget: it debits the team by the highest bid, and the budget becomes
  negative. No sequence of calls from the initial state reaches such a state.
\<close>

theorem C6_end_bidding_debits_unchecked:
  assumes "is_active (current_bid s)" and "team (current_bid s) = Some T" and "T \<noteq> []"
    and "teams s T = Some b" and "b < highest_bid (current_bid s)"
  shows "teams (snd (end_bidding running s)) T = Some (b - highest_bid (current_bid s)) \<and>
         b - highest_bid (current_bid s) < 0 \<and>
         (\<forall>loop acts ps rs. s \<noteq> run loop acts (initial_state ps rs))"
proof -
  have "s \<noteq> run loop acts (initial_state ps rs)" for loop acts ps rs
  proof
    assume "s = run loop acts (initial_state ps rs)"
    then have "state_ok s" by (simp add: state_ok_reachable)
    with assms(1,2,4,5) show False by (simp add: state_ok_def)
  qed
  with end_bidding_sold(1) [OF assms(1-4), of running] assms(5) show ?thesis by simp
qed

theorem C6_end_bidding_debits_unchecked_witness:
  "is_active (current_bid overdrawn_round) \<and>
   team (current_bid overdrawn_round) = Some ''Team A'' \<and> ''Team A'' \<noteq> [] \<and>
   teams overdrawn_round ''Team A'' = Some 10 \<and>
   (10::int) < highest_bid (current_bid overdrawn_round) \<and>
   teams (snd (end_bidding False overdrawn_round)) ''Team A'' = Some (- 40) \<and>
   (\<forall>loop acts ps rs. overdrawn_round \<noteq> run loop acts (initial_state ps rs))"
proof -
  have h1: "is_active (current_bid overdrawn_round)" by (simp add: overdrawn_round_def)
  have h2: "team (current_bid overdrawn_round) = Some ''Team A''"
    by (simp add: overdrawn_round_def)
  have h3: "''Team A'' \<noteq> []" by simp
  have h4: "teams overdrawn_round ''Team A'' = Some 10" by (simp add: overdrawn_round_def)
  have h5: "(10::int) < highest_bid (current_bid overdrawn_round)"
    by (simp add: overdrawn_round_def)
  have h6: "highest_bid (current_bid overdrawn_round) = 50"
    by (simp add: overdrawn_round_def)
  from C6_end_bidding_debits_unchecked [OF h1 h2 h3 h4 h5, of False] h1 h2 h4 h5 h6
  show ?thesis by simp
qed

text \<open>
  Claim C7. When the round is not active, \<^verbatim>\<open>end_bidding\<close> answers
  "No active bidding to end." and the state is unchanged: budgets, results, round and
  scheduled messages.
\<close>

theorem C7_end_bidding_inactive:
  "\<not> is_active (current_bid s) \<Longrightarrow> end_bidding running s = (Msg_nothing_to_end, s)"
  by (simp add: end_bidding_def)

theorem C7_end_bidding_inactive_witness:
  "\<not> is_active (current_bid (initial_state [] [])) \<and>
   end_bidding False (initial_state [] []) = (Msg_nothing_to_end, initial_state [] [])"
proof -
  have h: "\<not> is_active (current_bid (initial_state [] []))"
    by (simp add: initial_state_def idle_bid_def)
  from C7_end_bidding_inactive [OF h, of False] h show ?thesis by simp
qed



text \<open>
  Claim C9. In every state reached from the initial state by a sequence of calls (those
  of \<^verbatim>\<open>start_bidding\<close>, \<^verbatim>\<open>place_bid\<close> and \<^verbatim>\<open>end_bidding\<close>, and \<^verbatim>\<open>clear_data\<close> as well), the
  round has a leading team if and only if its highest bid is greater than 0.
\<close>

theorem C9_team_iff_positive_bid:
  "(team (current_bid (run running acts (initial_state ps rs))) \<noteq> None) =
   (0 < highest_bid (current_bid (run running acts (initial_state ps rs))))"
  using state_ok_reachable [of running acts ps rs]
  by (auto simp: state_ok_def split: option.splits)

theorem C9_team_iff_positive_bid_witness:
  "team (current_bid
     (run False [Start_bidding ''P1'', Place_bid ''Team A'' 50000] (initial_state [] [])))
     \<noteq> None \<and>
   0 < highest_bid (current_bid
     (run False [Start_bidding ''P1'', Place_bid ''Team A'' 50000] (initial_state [] [])))"
proof -
  have "team (current_bid mid_round) \<noteq> None" by (simp add: mid_round_eq)
  with C9_team_iff_positive_bid
    [of False "[Start_bidding ''P1'', Place_bid ''Team A'' 50000]" "[]" "[]"]
  show ?thesis by (simp only: mid_round_def [symmetric]) simp
qed

text \<open>
  Claim C10. From every state, \<^verbatim>\<open>start_bidding\<close> overwrites the round with the new player,
  highest bid 0, no team and the active flag, and changes neither the budgets nor the
  results, so a round in progress is dropped without settlement. With a running loop it
  schedules the \<^verbatim>\<open>start_bidding\<close> message and answers; without one it raises after the
  round has been overwritten.
\<close>

theorem C10_start_bidding_overwrites:
  "start_bidding True p s =
     (Msg_started p,
      s\<lparr>current_bid := \<lparr>player = Some p, highest_bid = 0, team = None, is_active = True\<rparr>,
        outbox := outbox s @ [Start_bidding_msg (Some p) 0]\<rparr>) \<and>
   start_bidding False p s =
     (Raised_RuntimeError,
      s\<lparr>current_bid := \<lparr>player = Some p, highest_bid = 0, team = None, is_active = True\<rparr>\<rparr>) \<and>
   current_bid (snd (start_bidding running p s)) =
     \<lparr>player = Some p, highest_bid = 0, team = None, is_active = True\<rparr> \<and>
   teams (snd (start_bidding running p s)) = teams s \<and>
   results (snd (start_bidding running p s)) = results s"
  by (cases running) (simp_all add: start_bidding_def create_task_simps Let_def)

end
